theory Spec2Isabelle
  imports Complex_Main
begin

section \<open>The playlist watch-time route: \<open>src/app/api/playlist-info/route.ts\<close>\<close>

text \<open>
  The route handler fetches the members of a playlist from the catalog service, looks up
  their durations, sums them and renders the total and the average as clock strings.
  This theory embeds the helper functions \<open>extractPlaylistId\<close>, \<open>formatDuration\<close>,
  \<open>parseISO8601Duration\<close> and the handler \<open>POST\<close>.

  Conventions of the embedding.
  \<^item> A JavaScript \<open>number\<close> is an exact rational (\<^typ>\<open>rat\<close>); whole numbers produced by
    \<open>Math.floor\<close> and by array lengths are \<^typ>\<open>int\<close> and \<^typ>\<open>nat\<close>. Sums and products of
    whole numbers below \<open>2^53\<close> are exact in IEEE doubles, and so is \<open>%\<close>; the rounding of a
    quotient and of larger values, and the exponent notation of \<open>String\<close> from \<open>10^21\<close> on,
    are not modelled.
  \<^item> A value that may be \<open>undefined\<close> or \<open>null\<close> is an \<^typ>\<open>'a option\<close>.
  \<^item> An operation that may throw returns \<open>js_error + 'a\<close>, with \<open>Inl\<close> for the thrown value;
    \<open>try\<close>/\<open>catch\<close> is \<open>try_catch\<close>.
\<close>

subsection \<open>Numbers and strings of the platform\<close>

type_synonym number = rat

text \<open>\<open>x % y\<close> of JavaScript: the remainder has the sign of the dividend.\<close>

definition js_trunc :: "number \<Rightarrow> int" where
  "js_trunc x = (if 0 \<le> x then \<lfloor>x\<rfloor> else \<lceil>x\<rceil>)"

definition js_rem :: "number \<Rightarrow> number \<Rightarrow> number" where
  "js_rem x y = x - y * of_int (js_trunc (x / y))"

definition digit_char :: "nat \<Rightarrow> char" where
  "digit_char d = ''0123456789'' ! d"

fun decimal :: "nat \<Rightarrow> string" where
  "decimal n = (if n < 10 then [digit_char n] else decimal (n div 10) @ [digit_char (n mod 10)])"

declare decimal.simps [simp del]

text \<open>\<open>String(n)\<close> and \<open>`${n}`\<close> for a whole number \<open>n\<close>.\<close>

definition String_of :: "int \<Rightarrow> string" where
  "String_of i = (if i < 0 then CHR ''-'' # decimal (nat (- i)) else decimal (nat i))"

text \<open>\<open>s.padStart(n, c)\<close> with a one-character filler.\<close>

definition padStart :: "string \<Rightarrow> nat \<Rightarrow> char \<Rightarrow> string" where
  "padStart s n c = replicate (n - length s) c @ s"

text \<open>The class \<open>\d\<close> of a regular expression without the unicode flag.\<close>

definition is_digit :: "char \<Rightarrow> bool" where
  "is_digit c = (c \<in> set ''0123456789'')"

definition digit_val :: "char \<Rightarrow> nat" where
  "digit_val c = of_char c - 48"

text \<open>
  \<open>parseInt(s, 10)\<close> on a string that starts with a digit: the value of the longest
  prefix of digits. The route calls it on a capture of \<open>\d+\<close> or on \<open>'0'\<close> only, so
  the white space, sign and \<open>NaN\<close> cases of the built-in do not arise.
\<close>

definition parseInt10 :: "string \<Rightarrow> number" where
  "parseInt10 s = of_nat (foldl (\<lambda>acc c. 10 * acc + digit_val c) 0 (takeWhile is_digit s))"

subsection \<open>Thrown values\<close>

text \<open>
  What the \<open>catch\<close> blocks read of a thrown value: \<open>error.response?.status\<close> and
  \<open>error.response?.data?.error\<close> with its \<open>message\<close> and \<open>errors[i].reason\<close>,
  \<open>errors[i].message\<close>.
\<close>

record error_item =
  reason :: "string option"
  item_message :: "string option"

record yt_error =
  message :: "string option"
  errors :: "error_item list option"

record error_response =
  status :: "nat option"
  data_error :: "yt_error option"

record js_error =
  response :: "error_response option"

definition try_catch :: "js_error + 'a \<Rightarrow> (js_error \<Rightarrow> js_error + 'a) \<Rightarrow> js_error + 'a" where
  "try_catch body handler = (case body of Inl e \<Rightarrow> handler e | Inr v \<Rightarrow> Inr v)"

subsection \<open>\<open>formatDuration\<close>\<close>

definition formatDuration :: "number \<Rightarrow> string" where
  "formatDuration totalSeconds =
    (let hours = \<lfloor>totalSeconds / 3600\<rfloor>;
         minutes = \<lfloor>js_rem totalSeconds 3600 / 60\<rfloor>;
         seconds = \<lfloor>js_rem totalSeconds 60\<rfloor>;
         hoursStr = (if hours > 0 then String_of hours @ '':'' else '''');
         minutesStr = padStart (String_of minutes) (if hours > 0 then 2 else 1) CHR ''0'';
         secondsStr = padStart (String_of seconds) 2 CHR ''0''
     in hoursStr @ minutesStr @ '':'' @ secondsStr)"

subsection \<open>\<open>parseISO8601Duration\<close>\<close>

text \<open>
  \<open>durationString.match(/PT(?:(\d+)H)?(?:(\d+)M)?(?:(\d+)S)?/)\<close>. The expression is not
  anchored, and every group after \<open>PT\<close> is optional, so the match is at the leftmost
  \<open>PT\<close> of the string and fails only when there is none: \<open>after_PT\<close> is the rest of the
  string behind that \<open>PT\<close>.

  An optional group \<open>(?:(\d+)X)?\<close> is greedy: \<open>\d+\<close> takes the whole run of digits, and
  giving digits back cannot help, since the character behind a shorter run is a digit
  and not the marker. So the group captures the run when it is not empty and the marker
  follows it, and it is skipped (the capture is \<open>undefined\<close>) otherwise.
\<close>

fun after_PT :: "string \<Rightarrow> string option" where
  "after_PT [] = None"
| "after_PT [c] = None"
| "after_PT (c # d # cs) =
     (if c = CHR ''P'' \<and> d = CHR ''T'' then Some cs else after_PT (d # cs))"

definition opt_group :: "char \<Rightarrow> string \<Rightarrow> string option \<times> string" where
  "opt_group marker s =
    (let ds = takeWhile is_digit s; r = dropWhile is_digit s in
     if ds \<noteq> [] \<and> r \<noteq> [] \<and> hd r = marker then (Some ds, tl r) else (None, s))"

text \<open>The captures \<open>matches[1]\<close>, \<open>matches[2]\<close>, \<open>matches[3]\<close>, or \<open>None\<close> for \<open>null\<close>.\<close>

definition duration_match :: "string \<Rightarrow> (string option \<times> string option \<times> string option) option" where
  "duration_match s =
    (case after_PT s of
       None \<Rightarrow> None
     | Some r0 \<Rightarrow>
         (let (g1, r1) = opt_group CHR ''H'' r0;
              (g2, r2) = opt_group CHR ''M'' r1;
              (g3, r3) = opt_group CHR ''S'' r2
          in Some (g1, g2, g3)))"

text \<open>\<open>matches[i] || '0'\<close>: a capture of \<open>\d+\<close> is never empty, so only \<open>undefined\<close> is falsy.\<close>

definition or_zero :: "string option \<Rightarrow> string" where
  "or_zero g = (case g of None \<Rightarrow> ''0'' | Some ds \<Rightarrow> if ds = [] then ''0'' else ds)"

text \<open>
  The \<open>Duration\<close> of the package \<open>duration-fns\<close>; its \<open>parse\<close> is not part of the
  repository and is a parameter of the model.
\<close>

record Duration =
  d_hours :: "number option"
  d_minutes :: "number option"
  d_seconds :: "number option"

definition nullish :: "number option \<Rightarrow> number \<Rightarrow> number" where
  "nullish v d = (case v of None \<Rightarrow> d | Some x \<Rightarrow> x)"

definition manual_parse :: "string \<Rightarrow> js_error + number" where
  "manual_parse durationString =
    (case duration_match durationString of
       None \<Rightarrow> Inr 0
     | Some (m1, m2, m3) \<Rightarrow>
         (let hours = parseInt10 (or_zero m1);
              minutes = parseInt10 (or_zero m2);
              seconds = parseInt10 (or_zero m3)
          in Inr (hours * 3600 + minutes * 60 + seconds)))"

definition fallback_parse :: "(string \<Rightarrow> js_error + Duration) \<Rightarrow> string \<Rightarrow> js_error + number" where
  "fallback_parse parse durationString =
    (case parse durationString of
       Inl e \<Rightarrow> Inl e
     | Inr parsed \<Rightarrow>
         Inr (nullish (d_hours parsed) 0 * 3600 + nullish (d_minutes parsed) 0 * 60
              + nullish (d_seconds parsed) 0))"

definition parseISO8601Duration :: "(string \<Rightarrow> js_error + Duration) \<Rightarrow> string \<Rightarrow> js_error + number" where
  "parseISO8601Duration parse durationString =
    (if durationString = [] then Inr 0
     else try_catch (manual_parse durationString)
            (\<lambda>error. try_catch (fallback_parse parse durationString) (\<lambda>innerError. Inr 0)))"

subsection \<open>\<open>extractPlaylistId\<close>\<close>

text \<open>
  \<open>new URL(url)\<close> is the platform's URL parser and a parameter of the model: it throws
  or returns an object whose \<open>searchParams\<close> are the decoded name/value pairs of the query
  in order. \<open>searchParams.get(name)\<close> is the value of the first pair with that name, or
  \<open>null\<close>.
\<close>

record URL =
  searchParams :: "(string \<times> string) list"

definition searchParams_get :: "(string \<times> string) list \<Rightarrow> string \<Rightarrow> string option" where
  "searchParams_get params name = map_of params name"

text \<open>The class \<open>[a-zA-Z0-9_-]\<close>, and \<open>/^[a-zA-Z0-9_-]+$/.test(s)\<close>.\<close>

definition id_char :: "char \<Rightarrow> bool" where
  "id_char c = (c \<in> set (''abcdefghijklmnopqrstuvwxyz'' @ ''ABCDEFGHIJKLMNOPQRSTUVWXYZ''
                          @ ''0123456789'' @ ''_-''))"

definition test_id_pattern :: "string \<Rightarrow> bool" where
  "test_id_pattern s = (s \<noteq> [] \<and> list_all id_char s)"

definition extractPlaylistId :: "(string \<Rightarrow> js_error + URL) \<Rightarrow> string \<Rightarrow> string option" where
  "extractPlaylistId URL_new url =
    (case URL_new url of
       Inl error \<Rightarrow> None
     | Inr parsedUrl \<Rightarrow>
         (case searchParams_get (searchParams parsedUrl) ''list'' of
            None \<Rightarrow> None
          | Some playlistId \<Rightarrow>
              if playlistId \<noteq> [] \<and> test_id_pattern playlistId then Some playlistId else None))"

subsection \<open>The catalog service\<close>

text \<open>
  The three calls of the client library the handler uses, as functions of the arguments
  that vary (\<open>part\<close> and \<open>maxResults\<close> are constants of the route). A rejected promise is
  \<open>Inl\<close>. Of a response the model keeps the fields the handler reads.
\<close>

record Snippet =
  sn_title :: "string option"
  sn_description :: "string option"
  sn_channelTitle :: "string option"
  sn_publishedAt :: "string option"

record Playlist =
  snippet :: "Snippet option"

record PlaylistListResponse =
  pl_items :: "Playlist list option"

record PlaylistItemContentDetails =
  videoId :: "string option"

record PlaylistItem =
  pi_contentDetails :: "PlaylistItemContentDetails option"

record PlaylistItemListResponse =
  pil_items :: "PlaylistItem list option"
  nextPageToken :: "string option"

record VideoContentDetails =
  duration :: "string option"

record Video =
  v_contentDetails :: "VideoContentDetails option"

record VideoListResponse =
  vl_items :: "Video list option"

record youtube =
  playlists_list :: "string \<Rightarrow> js_error + PlaylistListResponse"
  playlistItems_list :: "string \<Rightarrow> string option \<Rightarrow> js_error + PlaylistItemListResponse"
  videos_list :: "string list \<Rightarrow> js_error + VideoListResponse"

text \<open>The calls a run makes, in the order it makes them.\<close>

datatype call =
  PlaylistsList string
| PlaylistItemsList string "string option"
| VideosList "string list"

subsection \<open>Requests and responses of the route\<close>

datatype js_value = JUndefined | JNull | JBool bool | JNumber number | JString string | JObject

fun js_truthy :: "js_value \<Rightarrow> bool" where
  "js_truthy JUndefined = False"
| "js_truthy JNull = False"
| "js_truthy (JBool b) = b"
| "js_truthy (JNumber n) = (n \<noteq> 0)"
| "js_truthy (JString s) = (s \<noteq> [])"
| "js_truthy JObject = True"

text \<open>A string that may be \<open>undefined\<close> or \<open>null\<close> is truthy when it is present and not empty.\<close>

definition truthy :: "string option \<Rightarrow> bool" where
  "truthy v = (case v of None \<Rightarrow> False | Some s \<Rightarrow> s \<noteq> [])"

record PlaylistDetails =
  title :: "string option"
  description :: "string option"
  channelTitle :: "string option"
  publishedAt :: "string option"

record Summary =
  playlistDetails :: PlaylistDetails
  videoCount :: nat
  totalWatchTime :: string
  averageDuration :: string
  totalSeconds :: number

text \<open>\<open>NextResponse.json(body)\<close> and \<open>NextResponse.json({ error: message }, { status })\<close>.\<close>

datatype http_response =
  Json_ok Summary
| Json_error string nat

definition no_details :: PlaylistDetails where
  "no_details = \<lparr>title = None, description = None, channelTitle = None, publishedAt = None\<rparr>"

definition msg_key_missing :: string where
  "msg_key_missing = ''Server configuration error: API key missing.''"

definition msg_url_required :: string where
  "msg_url_required = ''Playlist URL is required.''"

definition msg_url_format :: string where
  "msg_url_format = ''Invalid YouTube Playlist URL format.''"

definition msg_not_found :: string where
  "msg_not_found = ''Playlist not found. Check the URL or playlist privacy settings.''"

definition msg_forbidden :: string where
  "msg_forbidden = ''Access forbidden. The playlist might be private or deleted.''"

definition msg_key_invalid :: string where
  "msg_key_invalid = ''Invalid API Key. Please check server configuration.''"

definition msg_quota :: string where
  "msg_quota = ''API Quota Exceeded. Please try again later.''"

definition msg_unexpected :: string where
  "msg_unexpected = ''Failed to fetch playlist information due to an unexpected server error.''"

subsection \<open>The outer \<open>catch\<close> of \<open>POST\<close>\<close>

text \<open>A template literal prints a missing value as \<open>undefined\<close>.\<close>

definition template :: "string option \<Rightarrow> string" where
  "template v = (case v of None \<Rightarrow> ''undefined'' | Some s \<Rightarrow> s)"

definition upstream_status :: "error_response \<Rightarrow> nat" where
  "upstream_status r = (case status r of Some n \<Rightarrow> n | None \<Rightarrow> 500)"

definition handle_error :: "js_error \<Rightarrow> http_response" where
  "handle_error error =
    (case response error of
       None \<Rightarrow> Json_error msg_unexpected 500
     | Some resp \<Rightarrow>
         (case data_error resp of
            None \<Rightarrow> Json_error msg_unexpected 500
          | Some ytError \<Rightarrow>
              (case errors ytError of
                 Some (e0 # es) \<Rightarrow>
                   (let reason = reason e0;
                        message = ''YouTube API Error ('' @ template reason @ ''): ''
                                  @ template (item_message e0)
                    in if reason = Some ''playlistNotFound'' then Json_error msg_not_found 404
                       else if reason = Some ''forbidden'' then Json_error msg_forbidden 403
                       else if reason = Some ''keyInvalid'' then Json_error msg_key_invalid 400
                       else if reason = Some ''quotaExceeded'' \<or> reason = Some ''rateLimitExceeded''
                               \<or> reason = Some ''userRateLimitExceeded''
                            then Json_error msg_quota 429
                       else Json_error message (upstream_status resp))
               | _ \<Rightarrow>
                   Json_error (''YouTube API Error: ''
                        @ (if truthy (message ytError) then the (message ytError) else ''Unknown error''))
                     (upstream_status resp))))"

subsection \<open>The stages of \<open>POST\<close>\<close>

text \<open>\<open>detailsError.response?.data?.error?.errors?.[0]?.reason\<close>\<close>

definition first_reason :: "js_error \<Rightarrow> string option" where
  "first_reason e =
    (case response e of
       None \<Rightarrow> None
     | Some resp \<Rightarrow>
         (case data_error resp of
            None \<Rightarrow> None
          | Some ytError \<Rightarrow>
              (case errors ytError of Some (e0 # es) \<Rightarrow> reason e0 | _ \<Rightarrow> None)))"

text \<open>
  The metadata lookup with its own \<open>try\<close>/\<open>catch\<close>: \<open>Inl\<close> is the response the handler
  returns at once, \<open>Inr\<close> the details it goes on with.
\<close>

definition details_of :: "Snippet option \<Rightarrow> PlaylistDetails" where
  "details_of sn =
    \<lparr>title = (case sn of None \<Rightarrow> None | Some s \<Rightarrow> sn_title s),
     description = (case sn of None \<Rightarrow> None | Some s \<Rightarrow> sn_description s),
     channelTitle = (case sn of None \<Rightarrow> None | Some s \<Rightarrow> sn_channelTitle s),
     publishedAt = (case sn of None \<Rightarrow> None | Some s \<Rightarrow> sn_publishedAt s)\<rparr>"

definition fetch_details :: "youtube \<Rightarrow> string \<Rightarrow> http_response + PlaylistDetails" where
  "fetch_details yt playlistId =
    (case playlists_list yt playlistId of
       Inr playlistInfoResponse \<Rightarrow>
         (case pl_items playlistInfoResponse of
            Some (p # ps) \<Rightarrow> Inr (details_of (snippet p))
          | _ \<Rightarrow> Inr no_details)
     | Inl detailsError \<Rightarrow>
         if first_reason detailsError = Some ''playlistNotFound''
         then Inl (Json_error msg_not_found 404)
         else Inr no_details)"

text \<open>
  \<open>items?.map(item => item.contentDetails?.videoId).filter(id => !!id) ?? []\<close>
\<close>

definition item_videoId :: "PlaylistItem \<Rightarrow> string option" where
  "item_videoId item = (case pi_contentDetails item of None \<Rightarrow> None | Some cd \<Rightarrow> videoId cd)"

definition page_video_ids :: "PlaylistItemListResponse \<Rightarrow> string list" where
  "page_video_ids playlistResponse =
    (case pil_items playlistResponse of
       None \<Rightarrow> []
     | Some items \<Rightarrow> map the (filter truthy (map item_videoId items)))"

text \<open>
  The \<open>do\<close> ... \<open>while (nextPageToken)\<close> loop. It runs for as long as the service hands
  out continuation tokens, so it is a partial function: \<open>None\<close> is a run that never
  leaves the loop.
\<close>

partial_function (option) fetch_pages ::
  "youtube \<Rightarrow> string \<Rightarrow> string option \<Rightarrow> string list \<Rightarrow> call list
    \<Rightarrow> ((js_error + string list) \<times> call list) option" where
  "fetch_pages yt playlistId pageToken videoIds calls =
    (case playlistItems_list yt playlistId pageToken of
       Inl e \<Rightarrow> Some (Inl e, calls @ [PlaylistItemsList playlistId pageToken])
     | Inr playlistResponse \<Rightarrow>
         (if truthy (nextPageToken playlistResponse)
          then fetch_pages yt playlistId (nextPageToken playlistResponse)
                 (videoIds @ page_video_ids playlistResponse)
                 (calls @ [PlaylistItemsList playlistId pageToken])
          else Some (Inr (videoIds @ page_video_ids playlistResponse),
                     calls @ [PlaylistItemsList playlistId pageToken])))"

declare fetch_pages.simps [code]

text \<open>\<open>for (let i = 0; i < videoIds.length; i += 50) videoIds.slice(i, i + 50)\<close>\<close>

fun batches :: "string list \<Rightarrow> string list list" where
  "batches ids = (if ids = [] then [] else take 50 ids # batches (drop 50 ids))"

declare batches.simps [simp del]

text \<open>
  \<open>await Promise.all(promises)\<close>: the list of the results, or the rejection. When several
  lookups fail, the platform rejects with the one that fails first in time; the model
  takes the first in the order of the batches.
\<close>

fun await_all :: "(js_error + 'a) list \<Rightarrow> js_error + 'a list" where
  "await_all [] = Inr []"
| "await_all (Inl e # rs) = Inl e"
| "await_all (Inr v # rs) = (case await_all rs of Inl e \<Rightarrow> Inl e | Inr vs \<Rightarrow> Inr (v # vs))"

text \<open>\<open>xs.forEach(f)\<close> for a callback that updates \<open>totalSeconds\<close> and may throw.\<close>

fun forEach :: "('a \<Rightarrow> number \<Rightarrow> js_error + number) \<Rightarrow> 'a list \<Rightarrow> number \<Rightarrow> js_error + number" where
  "forEach f [] acc = Inr acc"
| "forEach f (x # xs) acc = (case f x acc of Inl e \<Rightarrow> Inl e | Inr acc' \<Rightarrow> forEach f xs acc')"

definition video_duration :: "Video \<Rightarrow> string option" where
  "video_duration item = (case v_contentDetails item of None \<Rightarrow> None | Some cd \<Rightarrow> duration cd)"

definition add_duration ::
  "(string \<Rightarrow> js_error + Duration) \<Rightarrow> Video \<Rightarrow> number \<Rightarrow> js_error + number" where
  "add_duration parse item acc =
    (let durationString = video_duration item in
     if truthy durationString
     then (case parseISO8601Duration parse (the durationString) of
             Inl e \<Rightarrow> Inl e
           | Inr n \<Rightarrow> Inr (acc + n))
     else Inr acc)"

definition sum_durations ::
  "(string \<Rightarrow> js_error + Duration) \<Rightarrow> VideoListResponse list \<Rightarrow> js_error + number" where
  "sum_durations parse videoDetailsResponses =
    forEach (\<lambda>resp acc.
        case vl_items resp of
          None \<Rightarrow> Inr acc
        | Some items \<Rightarrow> forEach (add_duration parse) items acc)
      videoDetailsResponses 0"

definition average_of :: "number \<Rightarrow> nat \<Rightarrow> number" where
  "average_of secs n = (if n > 0 then secs / of_nat n else 0)"

text \<open>Everything behind the pagination loop; \<open>Inl\<close> is a value thrown to the outer \<open>catch\<close>.\<close>

definition aggregate ::
  "youtube \<Rightarrow> (string \<Rightarrow> js_error + Duration) \<Rightarrow> PlaylistDetails \<Rightarrow> string list \<Rightarrow> call list
    \<Rightarrow> (js_error + http_response) \<times> call list" where
  "aggregate yt parse details videoIds calls =
    (let count = length videoIds in
     if count = 0
     then (Inr (Json_ok \<lparr>playlistDetails = details, videoCount = 0, totalWatchTime = ''0:00'',
                          averageDuration = ''0:00'', totalSeconds = 0\<rparr>), calls)
     else
       (let bs = batches videoIds;
            calls' = calls @ map VideosList bs
        in case await_all (map (videos_list yt) bs) of
             Inl e \<Rightarrow> (Inl e, calls')
           | Inr videoDetailsResponses \<Rightarrow>
               (case sum_durations parse videoDetailsResponses of
                  Inl e \<Rightarrow> (Inl e, calls')
                | Inr secs \<Rightarrow>
                    (let formattedTotalDuration = formatDuration secs;
                         averageSeconds = average_of secs count;
                         formattedAverageDuration = formatDuration averageSeconds
                     in (Inr (Json_ok \<lparr>playlistDetails = details, videoCount = count,
                                totalWatchTime = formattedTotalDuration,
                                averageDuration = formattedAverageDuration,
                                totalSeconds = secs\<rparr>), calls')))))"

text \<open>
  The body of the outer \<open>try\<close>. The request is the outcome of
  \<open>const { playlistUrl } = await req.json()\<close>: a thrown value, or the value of the property.
\<close>

definition try_body ::
  "youtube \<Rightarrow> (string \<Rightarrow> js_error + URL) \<Rightarrow> (string \<Rightarrow> js_error + Duration) \<Rightarrow> js_error + js_value
    \<Rightarrow> ((js_error + http_response) \<times> call list) option" where
  "try_body yt URL_new parse req =
    (case req of
       Inl e \<Rightarrow> Some (Inl e, [])
     | Inr playlistUrl \<Rightarrow>
         (case playlistUrl of
            JString url \<Rightarrow>
              if \<not> js_truthy playlistUrl then Some (Inr (Json_error msg_url_required 400), [])
              else
                (let playlistId = extractPlaylistId URL_new url in
                 if \<not> truthy playlistId then Some (Inr (Json_error msg_url_format 400), [])
                 else
                   (case fetch_details yt (the playlistId) of
                      Inl resp \<Rightarrow> Some (Inr resp, [PlaylistsList (the playlistId)])
                    | Inr details \<Rightarrow>
                        (case fetch_pages yt (the playlistId) None [] [PlaylistsList (the playlistId)] of
                           None \<Rightarrow> None
                         | Some (Inl e, calls) \<Rightarrow> Some (Inl e, calls)
                         | Some (Inr videoIds, calls) \<Rightarrow>
                             Some (aggregate yt parse details videoIds calls))))
          | _ \<Rightarrow> Some (Inr (Json_error msg_url_required 400), [])))"

subsection \<open>\<open>POST\<close>\<close>

text \<open>
  The handler, given \<open>process.env.YOUTUBE_API_KEY\<close>, the service, the platform parsers and
  the request. The result is the response with the calls made to the service, or \<open>None\<close>
  when the pagination never ends.
\<close>

definition POST ::
  "string option \<Rightarrow> youtube \<Rightarrow> (string \<Rightarrow> js_error + URL) \<Rightarrow> (string \<Rightarrow> js_error + Duration)
    \<Rightarrow> js_error + js_value \<Rightarrow> (http_response \<times> call list) option" where
  "POST YOUTUBE_API_KEY yt URL_new parse req =
    (if \<not> truthy YOUTUBE_API_KEY then Some (Json_error msg_key_missing 500, [])
     else
       (case try_body yt URL_new parse req of
          None \<Rightarrow> None
        | Some (Inl error, calls) \<Rightarrow> Some (handle_error error, calls)
        | Some (Inr resp, calls) \<Rightarrow> Some (resp, calls)))"

section \<open>Notions of the specification\<close>



text \<open>
  A valid duration encoding: \<open>PT\<close>, then an optional hour count with the marker \<open>H\<close>, an
  optional minute count with \<open>M\<close> and an optional second count with \<open>S\<close>. A count is
  written as a decimal number, maybe behind leading zeros: \<open>Some (z, n)\<close> is the number
  \<open>n\<close> behind \<open>z\<close> zeros, \<open>None\<close> an absent component.
\<close>

definition component :: "(nat \<times> nat) option \<Rightarrow> char \<Rightarrow> string" where
  "component g marker =
    (case g of None \<Rightarrow> [] | Some (z, n) \<Rightarrow> replicate z CHR ''0'' @ decimal n @ [marker])"






text \<open>
  Runs of the handler. The membership pages of a run are the responses to its
  \<open>playlistItems.list\<close> calls, its duration responses those to its \<open>videos.list\<close> calls,
  and its duration lookups the batches it asked for.
\<close>

fun membership_pages :: "youtube \<Rightarrow> call list \<Rightarrow> PlaylistItemListResponse list" where
  "membership_pages yt [] = []"
| "membership_pages yt (PlaylistItemsList p t # cs) =
     (case playlistItems_list yt p t of
        Inl e \<Rightarrow> membership_pages yt cs
      | Inr page \<Rightarrow> page # membership_pages yt cs)"
| "membership_pages yt (PlaylistsList p # cs) = membership_pages yt cs"
| "membership_pages yt (VideosList b # cs) = membership_pages yt cs"

fun duration_responses :: "youtube \<Rightarrow> call list \<Rightarrow> VideoListResponse list" where
  "duration_responses yt [] = []"
| "duration_responses yt (VideosList b # cs) =
     (case videos_list yt b of
        Inl e \<Rightarrow> duration_responses yt cs
      | Inr r \<Rightarrow> r # duration_responses yt cs)"
| "duration_responses yt (PlaylistsList p # cs) = duration_responses yt cs"
| "duration_responses yt (PlaylistItemsList p t # cs) = duration_responses yt cs"

fun duration_lookups :: "call list \<Rightarrow> string list list" where
  "duration_lookups [] = []"
| "duration_lookups (VideosList b # cs) = b # duration_lookups cs"
| "duration_lookups (PlaylistsList p # cs) = duration_lookups cs"
| "duration_lookups (PlaylistItemsList p t # cs) = duration_lookups cs"

text \<open>The entries of a membership page, and the entries that carry a video identifier.\<close>

definition page_items :: "PlaylistItemListResponse \<Rightarrow> PlaylistItem list" where
  "page_items page = (case pil_items page of None \<Rightarrow> [] | Some items \<Rightarrow> items)"

definition has_video_id :: "PlaylistItem \<Rightarrow> bool" where
  "has_video_id item =
    (case pi_contentDetails item of
       None \<Rightarrow> False
     | Some cd \<Rightarrow> (case videoId cd of None \<Rightarrow> False | Some v \<Rightarrow> v \<noteq> []))"

text \<open>
  The items of a duration response, and the \<open>ItemDuration\<close> of an item: what the parser
  makes of its duration string, and zero when the string is missing.
\<close>

definition response_videos :: "VideoListResponse \<Rightarrow> Video list" where
  "response_videos r = (case vl_items r of None \<Rightarrow> [] | Some items \<Rightarrow> items)"

definition item_duration :: "(string \<Rightarrow> js_error + Duration) \<Rightarrow> Video \<Rightarrow> number" where
  "item_duration parse item =
    (case v_contentDetails item of
       None \<Rightarrow> 0
     | Some cd \<Rightarrow>
         (case duration cd of
            None \<Rightarrow> 0
          | Some s \<Rightarrow> (case parseISO8601Duration parse s of Inl e \<Rightarrow> 0 | Inr n \<Rightarrow> n)))"

text \<open>The identifier of an entry that carries one.\<close>

definition entry_id :: "PlaylistItem \<Rightarrow> string" where
  "entry_id item =
    (case pi_contentDetails item of
       None \<Rightarrow> []
     | Some cd \<Rightarrow> (case videoId cd of None \<Rightarrow> [] | Some v \<Rightarrow> v))"

text \<open>
  The status of a response: \<open>NextResponse.json(body)\<close> answers 200, an error response
  carries its own status.
\<close>

fun response_status :: "http_response \<Rightarrow> nat" where
  "response_status (Json_ok body) = 200"
| "response_status (Json_error msg st) = st"

text \<open>\<open>error.response?.data?.error\<close>: the error body of the service, when the thrown value has one.\<close>

definition upstream_body :: "js_error \<Rightarrow> (error_response \<times> yt_error) option" where
  "upstream_body e =
    (case response e of
       None \<Rightarrow> None
     | Some resp \<Rightarrow> (case data_error resp of None \<Rightarrow> None | Some ytError \<Rightarrow> Some (resp, ytError)))"

definition handled_reasons :: "string option set" where
  "handled_reasons =
    {Some ''playlistNotFound'', Some ''forbidden'', Some ''keyInvalid'', Some ''quotaExceeded'',
     Some ''rateLimitExceeded'', Some ''userRateLimitExceeded''}"

subsection \<open>Concrete inputs\<close>

text \<open>
  Inputs for instances of the theorems. \<open>example_URL_new\<close> is what the platform's URL
  parser returns on the URLs of the specification's examples; every other string stands
  for one that does not parse.
\<close>

definition example_URL_new :: "string \<Rightarrow> js_error + URL" where
  "example_URL_new url =
    (if url = ''https://x/playlist?list=PL123_abc''
       then Inr \<lparr>searchParams = [(''list'', ''PL123_abc'')]\<rparr>
     else if url = ''https://x/playlist'' then Inr \<lparr>searchParams = []\<rparr>
     else if url = ''https://x/playlist?list=PL!'' then Inr \<lparr>searchParams = [(''list'', ''PL!'')]\<rparr>
     else Inl \<lparr>response = None\<rparr>)"

definition no_fallback :: "string \<Rightarrow> js_error + Duration" where
  "no_fallback s = Inl \<lparr>response = None\<rparr>"

definition upstream_failure :: "nat \<Rightarrow> string \<Rightarrow> string \<Rightarrow> js_error" where
  "upstream_failure st r msg =
    \<lparr>response = Some \<lparr>status = Some st,
        data_error = Some \<lparr>message = Some msg,
          errors = Some [\<lparr>reason = Some r, item_message = Some msg\<rparr>]\<rparr>\<rparr>\<rparr>"

definition entry :: "string option \<Rightarrow> PlaylistItem" where
  "entry v = \<lparr>pi_contentDetails = Some \<lparr>videoId = v\<rparr>\<rparr>"

definition video :: "string option \<Rightarrow> Video" where
  "video d = \<lparr>v_contentDetails = Some \<lparr>duration = d\<rparr>\<rparr>"

text \<open>
  A service with a playlist of two pages: three entries with the identifiers \<open>a\<close>, none
  and \<open>b\<close>, then one entry with \<open>c\<close>; the videos last 30, 90 and 3600 seconds.
\<close>

definition example_youtube :: youtube where
  "example_youtube =
    \<lparr>playlists_list = (\<lambda>p. Inl (upstream_failure 500 ''backendError'' ''Backend Error'')),
     playlistItems_list = (\<lambda>p t.
        if t = None
        then Inr \<lparr>pil_items = Some [entry (Some ''a''), entry None, entry (Some ''b'')],
                  nextPageToken = Some ''t1''\<rparr>
        else Inr \<lparr>pil_items = Some [entry (Some ''c'')], nextPageToken = None\<rparr>),
     videos_list = (\<lambda>ids.
        Inr \<lparr>vl_items = Some [video (Some ''PT30S''), video (Some ''PT1M30S''), video (Some ''PT1H'')]\<rparr>)\<rparr>"

text \<open>The same service for a playlist without entries, and for one that does not exist.\<close>

definition empty_youtube :: youtube where
  "empty_youtube =
    \<lparr>playlists_list = (\<lambda>p. Inr \<lparr>pl_items = None\<rparr>),
     playlistItems_list = (\<lambda>p t. Inr \<lparr>pil_items = Some [entry None], nextPageToken = None\<rparr>),
     videos_list = (\<lambda>ids. Inr \<lparr>vl_items = None\<rparr>)\<rparr>"

definition missing_youtube :: youtube where
  "missing_youtube =
    \<lparr>playlists_list = (\<lambda>p. Inl (upstream_failure 404 ''playlistNotFound'' ''Not found'')),
     playlistItems_list = (\<lambda>p t. Inl (upstream_failure 404 ''playlistNotFound'' ''Not found'')),
     videos_list = (\<lambda>ids. Inr \<lparr>vl_items = None\<rparr>)\<rparr>"

text \<open>A service that is out of quota when the members are listed.\<close>

definition quota_youtube :: youtube where
  "quota_youtube =
    \<lparr>playlists_list = (\<lambda>p. Inr \<lparr>pl_items = None\<rparr>),
     playlistItems_list = (\<lambda>p t. Inl (upstream_failure 403 ''quotaExceeded'' ''Quota exceeded'')),
     videos_list = (\<lambda>ids. Inr \<lparr>vl_items = None\<rparr>)\<rparr>"

text \<open>The request of the examples, and the runs it gives on these services.\<close>

definition example_request :: "js_error + js_value" where
  "example_request = Inr (JString ''https://x/playlist?list=PL123_abc'')"

definition example_summary :: Summary where
  "example_summary =
    \<lparr>playlistDetails = no_details, videoCount = 3, totalWatchTime = ''1:02:00'',
     averageDuration = ''20:40'', totalSeconds = 3720\<rparr>"

definition example_calls :: "call list" where
  "example_calls =
    [PlaylistsList ''PL123_abc'', PlaylistItemsList ''PL123_abc'' None,
     PlaylistItemsList ''PL123_abc'' (Some ''t1''), VideosList [''a'', ''b'', ''c'']]"

definition empty_summary :: Summary where
  "empty_summary =
    \<lparr>playlistDetails = no_details, videoCount = 0, totalWatchTime = ''0:00'',
     averageDuration = ''0:00'', totalSeconds = 0\<rparr>"

definition empty_calls :: "call list" where
  "empty_calls = [PlaylistsList ''PL123_abc'', PlaylistItemsList ''PL123_abc'' None]"

section \<open>Properties\<close>

subsection \<open>Formatting\<close>







lemma decimal_lt10: "n < 10 \<Longrightarrow> decimal n = [digit_char n]"
  by (subst decimal.simps) simp


lemma digit_char_0: "digit_char 0 = CHR ''0''"
  by (simp add: digit_char_def)







subsection \<open>Parsing\<close>




















lemma manual_parse_total: "\<exists>n. manual_parse s = Inr n"
  by (simp add: manual_parse_def Let_def split: option.split prod.split)

lemma parse_never_throws: "\<exists>n. parseISO8601Duration p s = Inr n"
  using manual_parse_total [of s]
  by (auto simp: parseISO8601Duration_def try_catch_def)

lemma component_digits:
  "component (Some (z, n)) c = (replicate z CHR ''0'' @ decimal n) @ [c]"
  by (simp add: component_def)











text \<open>
  Every non-empty string of digits is a decimal number behind leading zeros, so the
  components of \<open>duration_encoding\<close> are all the counts the pattern accepts.
\<close>

lemma digit_char_digit_val: "is_digit c \<Longrightarrow> digit_val c < 10 \<and> digit_char (digit_val c) = c"
  by (auto simp: is_digit_def digit_val_def digit_char_def)

lemma decimal_step:
  assumes "0 < n" "d < 10"
  shows "decimal (10 * n + d) = decimal n @ [digit_char d]"
proof -
  have "\<not> 10 * n + d < 10" using assms by simp
  moreover have "(10 * n + d) div 10 = n" "(10 * n + d) mod 10 = d" using assms by simp_all
  ultimately show ?thesis by (subst decimal.simps) simp
qed

lemma digits_form:
  "ds \<noteq> [] \<Longrightarrow> list_all is_digit ds \<Longrightarrow> \<exists>z n. ds = replicate z CHR ''0'' @ decimal n"
proof (induction ds rule: rev_induct)
  case Nil
  then show ?case by simp
next
  case (snoc c xs)
  then have c: "digit_val c < 10" "digit_char (digit_val c) = c"
    using digit_char_digit_val [of c] by simp_all
  show ?case
  proof (cases "xs = []")
    case True
    then have "xs @ [c] = replicate 0 CHR ''0'' @ decimal (digit_val c)"
      using c by (simp add: decimal_lt10)
    then show ?thesis by blast
  next
    case False
    with snoc obtain z n where xs: "xs = replicate z CHR ''0'' @ decimal n" by auto
    show ?thesis
    proof (cases "n = 0")
      case True
      then have "xs @ [c] = replicate (Suc z) CHR ''0'' @ decimal (digit_val c)"
        using xs c by (simp add: decimal_lt10 digit_char_0 replicate_append_same)
      then show ?thesis by blast
    next
      case False
      then have "xs @ [c] = replicate z CHR ''0'' @ decimal (10 * n + digit_val c)"
        using xs c by (simp add: decimal_step)
      then show ?thesis by blast
    qed
  qed
qed




subsection \<open>Identifier extraction\<close>

text \<open>
  C5: \<open>extractPlaylistId\<close> returns the value of the \<open>list\<close> parameter exactly when the
  string parses as a URL and that value is not empty and consists of letters, digits,
  \<open>_\<close> and \<open>-\<close>; a parse failure, a missing parameter and an invalid value all give
  \<open>null\<close>.
\<close>

theorem extractPlaylistId_characterisation:
  "(extractPlaylistId U url = Some v \<longleftrightarrow>
      (\<exists>u. U url = Inr u \<and> searchParams_get (searchParams u) ''list'' = Some v
           \<and> v \<noteq> [] \<and> list_all id_char v))
   \<and> (extractPlaylistId U url = None \<longleftrightarrow>
      (\<exists>e. U url = Inl e)
      \<or> (\<exists>u. U url = Inr u \<and> searchParams_get (searchParams u) ''list'' = None)
      \<or> (\<exists>u w. U url = Inr u \<and> searchParams_get (searchParams u) ''list'' = Some w
               \<and> (w = [] \<or> \<not> list_all id_char w)))"
  by (cases "U url")
     (auto simp: extractPlaylistId_def test_id_pattern_def split: option.splits)

lemma example_extract:
  "extractPlaylistId example_URL_new ''https://x/playlist?list=PL123_abc'' = Some ''PL123_abc''"
  "extractPlaylistId example_URL_new ''https://x/playlist'' = None"
  "extractPlaylistId example_URL_new ''https://x/playlist?list=PL!'' = None"
  "extractPlaylistId example_URL_new ''not a url'' = None"
  by code_simp+

theorem extractPlaylistId_witness:
  "extractPlaylistId example_URL_new ''https://x/playlist?list=PL123_abc'' = Some ''PL123_abc''
   \<and> (\<exists>u. example_URL_new ''https://x/playlist?list=PL123_abc'' = Inr u
          \<and> searchParams_get (searchParams u) ''list'' = Some ''PL123_abc''
          \<and> ''PL123_abc'' \<noteq> [] \<and> list_all id_char ''PL123_abc'')
   \<and> extractPlaylistId example_URL_new ''https://x/playlist'' = None
   \<and> extractPlaylistId example_URL_new ''https://x/playlist?list=PL!'' = None
   \<and> extractPlaylistId example_URL_new ''not a url'' = None"
  using extractPlaylistId_characterisation [of example_URL_new "''https://x/playlist?list=PL123_abc''" "''PL123_abc''"]
    example_extract
  by simp

subsection \<open>Runs of the handler\<close>

lemma membership_pages_append:
  "membership_pages yt (cs @ ds) = membership_pages yt cs @ membership_pages yt ds"
  by (induction yt cs rule: membership_pages.induct) (simp_all split: sum.split)


lemma duration_lookups_append:
  "duration_lookups (cs @ ds) = duration_lookups cs @ duration_lookups ds"
  by (induction cs rule: duration_lookups.induct) simp_all

lemma membership_calls_no_durations:
  "duration_responses yt (map (PlaylistItemsList p) toks) = []"
  "duration_lookups (map (PlaylistItemsList p) toks) = []"
  by (induction toks) simp_all

lemma duration_calls_no_pages:
  "membership_pages yt (map VideosList bs) = []"
  by (induction bs) simp_all

lemma duration_lookups_batches: "duration_lookups (map VideosList bs) = bs"
  by (induction bs) simp_all

lemma fetch_pages_run:
  assumes "fetch_pages yt p tok ids calls = Some y"
  shows "\<exists>toks. snd y = calls @ map (PlaylistItemsList p) toks \<and>
           (\<forall>ids'. fst y = Inr ids' \<longrightarrow>
              ids' = ids @ concat (map page_video_ids
                        (membership_pages yt (map (PlaylistItemsList p) toks))))"
  using assms
proof (induction rule: fetch_pages.raw_induct [rotated 1, consumes 1, case_names step])
  case (step f yt p tok ids calls y)
  show ?case
  proof (cases "playlistItems_list yt p tok")
    case (Inl e)
    with step(2) have "y = (Inl e, calls @ [PlaylistItemsList p tok])" by simp
    then have "snd y = calls @ map (PlaylistItemsList p) [tok] \<and>
           (\<forall>ids'. fst y = Inr ids' \<longrightarrow>
              ids' = ids @ concat (map page_video_ids
                        (membership_pages yt (map (PlaylistItemsList p) [tok]))))"
      by simp
    then show ?thesis by blast
  next
    case (Inr page)
    show ?thesis
    proof (cases "truthy (nextPageToken page)")
      case True
      with step(2) Inr have "f yt p (nextPageToken page) (ids @ page_video_ids page)
          (calls @ [PlaylistItemsList p tok]) = Some y" by simp
      from step(1) [OF this] obtain toks where
        t: "snd y = (calls @ [PlaylistItemsList p tok]) @ map (PlaylistItemsList p) toks"
        and i: "\<forall>ids'. fst y = Inr ids' \<longrightarrow>
              ids' = (ids @ page_video_ids page) @ concat (map page_video_ids
                        (membership_pages yt (map (PlaylistItemsList p) toks)))"
        by blast
      have "snd y = calls @ map (PlaylistItemsList p) (tok # toks) \<and>
           (\<forall>ids'. fst y = Inr ids' \<longrightarrow>
              ids' = ids @ concat (map page_video_ids
                        (membership_pages yt (map (PlaylistItemsList p) (tok # toks)))))"
        using t i Inr by simp
      then show ?thesis by blast
    next
      case False
      with step(2) Inr have "y = (Inr (ids @ page_video_ids page), calls @ [PlaylistItemsList p tok])"
        by simp
      then have "snd y = calls @ map (PlaylistItemsList p) [tok] \<and>
           (\<forall>ids'. fst y = Inr ids' \<longrightarrow>
              ids' = ids @ concat (map page_video_ids
                        (membership_pages yt (map (PlaylistItemsList p) [tok]))))"
        using Inr by simp
      then show ?thesis by blast
    qed
  qed
qed

lemma fetch_pages_cong:
  assumes "fetch_pages yt p tok ids calls = Some y" "playlistItems_list yt' = playlistItems_list yt"
  shows "fetch_pages yt' p tok ids calls = Some y"
  using assms
proof (induction rule: fetch_pages.raw_induct [rotated 1, consumes 1, case_names step])
  case (step f yt p tok ids calls y)
  show ?case
  proof (cases "playlistItems_list yt p tok")
    case (Inl e)
    with step(2,3) show ?thesis by (subst fetch_pages.simps) simp
  next
    case (Inr page)
    show ?thesis
    proof (cases "truthy (nextPageToken page)")
      case True
      with step(2) Inr have "f yt p (nextPageToken page) (ids @ page_video_ids page)
          (calls @ [PlaylistItemsList p tok]) = Some y" by simp
      from step(1) [OF this step(3)] show ?thesis
        using Inr True step(3) by (subst fetch_pages.simps) simp
    next
      case False
      with step(2,3) Inr show ?thesis by (subst fetch_pages.simps) simp
    qed
  qed
qed

lemma fetch_pages_only_items:
  assumes "playlistItems_list yt' = playlistItems_list yt"
  shows "fetch_pages yt' p tok ids calls = fetch_pages yt p tok ids calls"
proof (cases "fetch_pages yt p tok ids calls")
  case (Some y)
  then show ?thesis using fetch_pages_cong [OF Some assms] by simp
next
  case None
  show ?thesis
  proof (cases "fetch_pages yt' p tok ids calls")
    case (Some y)
    from fetch_pages_cong [OF Some assms [symmetric]] None show ?thesis by simp
  qed (simp add: None)
qed

lemma parse_empty: "parseISO8601Duration parse [] = Inr 0"
  by (simp add: parseISO8601Duration_def)

lemma add_duration_eq: "add_duration parse item acc = Inr (acc + item_duration parse item)"
proof (cases "video_duration item")
  case None
  then show ?thesis
    by (auto simp: add_duration_def item_duration_def truthy_def video_duration_def
        split: option.splits)
next
  case (Some s)
  obtain n where n: "parseISO8601Duration parse s = Inr n"
    using parse_never_throws by blast
  show ?thesis
  proof (cases "s = []")
    case True
    with Some show ?thesis
      by (auto simp: add_duration_def item_duration_def truthy_def video_duration_def parse_empty
          split: option.splits)
  next
    case False
    with Some n show ?thesis
      by (auto simp: add_duration_def item_duration_def truthy_def video_duration_def
          split: option.splits)
  qed
qed

lemma forEach_add_duration:
  "forEach (add_duration parse) items acc = Inr (acc + sum_list (map (item_duration parse) items))"
  by (induction items arbitrary: acc) (simp_all add: add_duration_eq)

lemma forEach_responses:
  "forEach (\<lambda>resp acc. case vl_items resp of None \<Rightarrow> Inr acc
                         | Some items \<Rightarrow> forEach (add_duration parse) items acc) rs acc
   = Inr (acc + sum_list (map (item_duration parse) (concat (map response_videos rs))))"
  by (induction rs arbitrary: acc)
     (simp_all add: forEach_add_duration response_videos_def split: option.split)

lemma sum_durations_eq:
  "sum_durations parse rs
     = Inr (sum_list (map (item_duration parse) (concat (map response_videos rs))))"
  by (simp add: sum_durations_def forEach_responses)

lemma await_all_responses:
  "await_all (map (videos_list yt) bs) = Inr rs \<Longrightarrow> rs = duration_responses yt (map VideosList bs)"
proof (induction bs arbitrary: rs)
  case Nil
  then show ?case by simp
next
  case (Cons b bs)
  then show ?case
    by (cases "videos_list yt b") (auto split: sum.splits)
qed

lemma batches_Nil: "batches [] = []"
  by (simp add: batches.simps)

lemma formatDuration_zero: "formatDuration 0 = ''0:00''"
  by code_simp

lemma aggregate_success:
  assumes "aggregate yt parse d ids calls = (Inr (Json_ok r), calls')"
  shows "playlistDetails r = d \<and> videoCount r = length ids
       \<and> calls' = calls @ map VideosList (batches ids)
       \<and> totalSeconds r = sum_list (map (item_duration parse)
             (concat (map response_videos (duration_responses yt (map VideosList (batches ids))))))
       \<and> totalWatchTime r = formatDuration (totalSeconds r)
       \<and> averageDuration r = formatDuration (average_of (totalSeconds r) (videoCount r))"
proof (cases "ids = []")
  case True
  with assms have "r = \<lparr>playlistDetails = d, videoCount = 0, totalWatchTime = ''0:00'',
        averageDuration = ''0:00'', totalSeconds = 0\<rparr>" and "calls' = calls"
    by (simp_all add: aggregate_def)
  with True show ?thesis
    by (simp add: batches_Nil formatDuration_zero average_of_def)
next
  case False
  then have len: "length ids \<noteq> 0" by simp
  obtain rs where rs: "await_all (map (videos_list yt) (batches ids)) = Inr rs"
    using assms len by (cases "await_all (map (videos_list yt) (batches ids))")
      (simp_all add: aggregate_def Let_def)
  have rs_eq: "rs = duration_responses yt (map VideosList (batches ids))"
    using await_all_responses [OF rs] .
  from assms len rs show ?thesis
    by (simp add: aggregate_def Let_def sum_durations_eq rs_eq [symmetric]) auto
qed

lemma aggregate_empty:
  "aggregate yt parse d [] calls =
     (Inr (Json_ok \<lparr>playlistDetails = d, videoCount = 0, totalWatchTime = ''0:00'',
        averageDuration = ''0:00'', totalSeconds = 0\<rparr>), calls)"
  by (simp add: aggregate_def)

lemma handle_error_not_ok: "handle_error e \<noteq> Json_ok r"
  by (simp add: handle_error_def Let_def split: option.split list.split)

lemma fetch_details_cases:
  "fetch_details yt p = Inl resp \<Longrightarrow> resp = Json_error msg_not_found 404"
  by (auto simp: fetch_details_def split: sum.splits option.splits list.splits if_splits)

lemma extract_nonempty: "extractPlaylistId U url = Some p \<Longrightarrow> p \<noteq> []"
  by (auto simp: extractPlaylistId_def split: sum.splits option.splits if_splits)

lemma POST_success:
  assumes "POST key yt U parse req = Some (Json_ok r, calls)"
  shows "\<exists>url p d ids calls0.
           req = Inr (JString url) \<and> extractPlaylistId U url = Some p
         \<and> fetch_details yt p = Inr d
         \<and> fetch_pages yt p None [] [PlaylistsList p] = Some (Inr ids, calls0)
         \<and> aggregate yt parse d ids calls0 = (Inr (Json_ok r), calls)"
proof -
  from assms have key: "truthy key"
    by (auto simp: POST_def split: if_splits)
  with assms have tb: "try_body yt U parse req = Some (Inr (Json_ok r), calls)"
    by (auto simp: POST_def handle_error_not_ok split: option.splits sum.splits prod.splits)
  then obtain v where req: "req = Inr v"
    by (cases req) (auto simp: try_body_def)
  with tb obtain url where v: "v = JString url" and url: "url \<noteq> []"
    by (cases v) (auto simp: try_body_def split: if_splits)
  from tb req v url obtain p where p: "extractPlaylistId U url = Some p"
    by (cases "extractPlaylistId U url") (auto simp: try_body_def truthy_def Let_def)
  then have pne: "p \<noteq> []" by (rule extract_nonempty)
  from tb req v url p pne obtain d where d: "fetch_details yt p = Inr d"
    by (cases "fetch_details yt p")
       (auto simp: try_body_def truthy_def Let_def dest: fetch_details_cases)
  from tb req v url p pne d obtain ids calls0 where
    f: "fetch_pages yt p None [] [PlaylistsList p] = Some (Inr ids, calls0)"
    by (auto simp: try_body_def truthy_def Let_def split: option.splits sum.splits prod.splits)
  from tb req v url p pne d f have "aggregate yt parse d ids calls0 = (Inr (Json_ok r), calls)"
    by (simp add: try_body_def truthy_def Let_def)
  with req v p d f show ?thesis by blast
qed

lemma run_calls:
  assumes "POST key yt U parse req = Some (Json_ok r, calls)"
  shows "\<exists>p d toks ids.
           calls = PlaylistsList p # map (PlaylistItemsList p) toks @ map VideosList (batches ids)
         \<and> ids = concat (map page_video_ids (membership_pages yt (map (PlaylistItemsList p) toks)))
         \<and> aggregate yt parse d ids (PlaylistsList p # map (PlaylistItemsList p) toks)
             = (Inr (Json_ok r), calls)"
proof -
  from POST_success [OF assms] obtain url p d ids calls0 where
    f: "fetch_pages yt p None [] [PlaylistsList p] = Some (Inr ids, calls0)" and
    a: "aggregate yt parse d ids calls0 = (Inr (Json_ok r), calls)"
    by blast
  from fetch_pages_run [OF f] obtain toks where
    c0: "calls0 = PlaylistsList p # map (PlaylistItemsList p) toks" and
    ids: "ids = concat (map page_video_ids (membership_pages yt (map (PlaylistItemsList p) toks)))"
    by auto
  from aggregate_success [OF a] have "calls = calls0 @ map VideosList (batches ids)" by simp
  with c0 ids a show ?thesis by auto
qed

lemma page_video_ids_eq:
  "page_video_ids page = map entry_id (filter has_video_id (page_items page))"
proof -
  have "map the (filter truthy (map item_videoId items)) = map entry_id (filter has_video_id items)"
    for items
    by (induction items)
       (auto simp: truthy_def item_videoId_def has_video_id_def entry_id_def split: option.splits)
  then show ?thesis
    by (simp add: page_video_ids_def page_items_def split: option.split)
qed

lemma length_concat_ids:
  "length (concat (map page_video_ids pages))
     = length (filter has_video_id (concat (map page_items pages)))"
  by (induction pages) (simp_all add: page_video_ids_eq)

lemma example_run:
  "POST (Some ''key'') example_youtube example_URL_new no_fallback example_request
     = Some (Json_ok example_summary, example_calls)"
  by code_simp

lemma empty_run:
  "POST (Some ''key'') empty_youtube example_URL_new no_fallback example_request
     = Some (Json_ok empty_summary, empty_calls)"
  by code_simp



text \<open>
  C10: of a membership page the handler keeps the identifiers of the entries that carry
  one, in order, and skips the others; so in every run that answers with a summary,
  \<open>videoCount\<close> is the number of entries with an identifier on the pages of the run, which
  is at most the number of entries.
\<close>

theorem membership_keeps_identified_entries:
  "page_video_ids page = map entry_id (filter has_video_id (page_items page))
   \<and> (POST key yt U parse req = Some (Json_ok r, calls) \<longrightarrow>
        videoCount r = length (filter has_video_id (concat (map page_items (membership_pages yt calls))))
      \<and> videoCount r \<le> length (concat (map page_items (membership_pages yt calls))))"
proof (intro conjI impI)
  show "page_video_ids page = map entry_id (filter has_video_id (page_items page))"
    by (rule page_video_ids_eq)
next
  assume run: "POST key yt U parse req = Some (Json_ok r, calls)"
  from run_calls [OF run] obtain p d toks ids where
    c: "calls = PlaylistsList p # map (PlaylistItemsList p) toks @ map VideosList (batches ids)" and
    ids: "ids = concat (map page_video_ids (membership_pages yt (map (PlaylistItemsList p) toks)))" and
    a: "aggregate yt parse d ids (PlaylistsList p # map (PlaylistItemsList p) toks)
             = (Inr (Json_ok r), calls)"
    by blast
  have pages: "membership_pages yt calls = membership_pages yt (map (PlaylistItemsList p) toks)"
    by (simp add: c membership_pages_append duration_calls_no_pages)
  from aggregate_success [OF a] have "videoCount r = length ids" by simp
  then show n: "videoCount r = length (filter has_video_id (concat (map page_items (membership_pages yt calls))))"
    by (simp only: ids pages length_concat_ids)
  show "videoCount r \<le> length (concat (map page_items (membership_pages yt calls)))"
    unfolding n by (rule length_filter_le)
qed

theorem membership_keeps_identified_entries_witness:
  "POST (Some ''key'') example_youtube example_URL_new no_fallback example_request
     = Some (Json_ok example_summary, example_calls)
   \<and> videoCount example_summary = length (filter has_video_id
         (concat (map page_items (membership_pages example_youtube example_calls))))
   \<and> videoCount example_summary
         \<le> length (concat (map page_items (membership_pages example_youtube example_calls)))
   \<and> videoCount example_summary = 3
   \<and> length (concat (map page_items (membership_pages example_youtube example_calls))) = 4"
proof -
  have "length (concat (map page_items (membership_pages example_youtube example_calls))) = 4"
    by code_simp
  with membership_keeps_identified_entries
         [of "\<lparr>pil_items = None, nextPageToken = None\<rparr>" "Some ''key''" example_youtube
             example_URL_new no_fallback example_request example_summary example_calls]
       example_run
  show ?thesis by (simp add: example_summary_def)
qed

text \<open>
  C8: a run that answers with a summary although no entry of its membership pages
  carries an identifier reports \<open>videoCount = 0\<close>, \<open>totalSeconds = 0\<close> and \<open>0:00\<close> for the
  total and the average, and makes no duration lookup; and when the membership fetch
  yields no identifier, the run answers with exactly that summary.
\<close>

theorem empty_playlist:
  "(POST key yt U parse req = Some (Json_ok r, calls)
      \<and> filter has_video_id (concat (map page_items (membership_pages yt calls))) = []
     \<longrightarrow> videoCount r = 0 \<and> totalSeconds r = 0 \<and> totalWatchTime r = ''0:00''
         \<and> averageDuration r = ''0:00'' \<and> duration_lookups calls = [])
   \<and> (truthy key \<and> req = Inr (JString url) \<and> url \<noteq> [] \<and> extractPlaylistId U url = Some p
      \<and> fetch_details yt p = Inr d
      \<and> fetch_pages yt p None [] [PlaylistsList p] = Some (Inr [], calls0)
     \<longrightarrow> POST key yt U parse req =
           Some (Json_ok \<lparr>playlistDetails = d, videoCount = 0, totalWatchTime = ''0:00'',
                          averageDuration = ''0:00'', totalSeconds = 0\<rparr>, calls0)
         \<and> duration_lookups calls0 = [])"
proof (intro conjI impI)
  assume h: "POST key yt U parse req = Some (Json_ok r, calls)
      \<and> filter has_video_id (concat (map page_items (membership_pages yt calls))) = []"
  then have run: "POST key yt U parse req = Some (Json_ok r, calls)" by simp
  from run_calls [OF run] obtain p d toks ids where
    c: "calls = PlaylistsList p # map (PlaylistItemsList p) toks @ map VideosList (batches ids)" and
    ids: "ids = concat (map page_video_ids (membership_pages yt (map (PlaylistItemsList p) toks)))" and
    a: "aggregate yt parse d ids (PlaylistsList p # map (PlaylistItemsList p) toks)
             = (Inr (Json_ok r), calls)"
    by blast
  have pages: "membership_pages yt calls = membership_pages yt (map (PlaylistItemsList p) toks)"
    by (simp add: c membership_pages_append duration_calls_no_pages)
  have "length ids = 0"
    using h by (simp only: ids length_concat_ids pages [symmetric]) simp
  then have e: "ids = []" by simp
  from a have r: "r = \<lparr>playlistDetails = d, videoCount = 0, totalWatchTime = ''0:00'',
        averageDuration = ''0:00'', totalSeconds = 0\<rparr>"
    by (simp add: e aggregate_empty)
  have l: "duration_lookups calls = []"
    by (simp add: c e batches_Nil duration_lookups_append membership_calls_no_durations)
  show "videoCount r = 0" "totalSeconds r = 0" "totalWatchTime r = ''0:00''"
    "averageDuration r = ''0:00''" "duration_lookups calls = []"
    using r l by simp_all
next
  assume h: "truthy key \<and> req = Inr (JString url) \<and> url \<noteq> [] \<and> extractPlaylistId U url = Some p
      \<and> fetch_details yt p = Inr d
      \<and> fetch_pages yt p None [] [PlaylistsList p] = Some (Inr [], calls0)"
  then have pne: "p \<noteq> []" using extract_nonempty by blast
  show "POST key yt U parse req =
           Some (Json_ok \<lparr>playlistDetails = d, videoCount = 0, totalWatchTime = ''0:00'',
                          averageDuration = ''0:00'', totalSeconds = 0\<rparr>, calls0)"
    using h pne by (simp add: POST_def try_body_def truthy_def Let_def aggregate_empty)
  from h fetch_pages_run [of yt p None "[]" "[PlaylistsList p]" "(Inr [], calls0)"]
  obtain toks where "calls0 = PlaylistsList p # map (PlaylistItemsList p) toks" by auto
  then show "duration_lookups calls0 = []"
    by (simp add: membership_calls_no_durations)
qed

theorem empty_playlist_witness:
  "POST (Some ''key'') empty_youtube example_URL_new no_fallback example_request
     = Some (Json_ok empty_summary, empty_calls)
   \<and> filter has_video_id (concat (map page_items (membership_pages empty_youtube empty_calls))) = []
   \<and> videoCount empty_summary = 0 \<and> totalSeconds empty_summary = 0
   \<and> totalWatchTime empty_summary = ''0:00'' \<and> averageDuration empty_summary = ''0:00''
   \<and> duration_lookups empty_calls = []
   \<and> truthy (Some ''key'')
   \<and> extractPlaylistId example_URL_new ''https://x/playlist?list=PL123_abc'' = Some ''PL123_abc''
   \<and> fetch_details empty_youtube ''PL123_abc'' = Inr no_details
   \<and> fetch_pages empty_youtube ''PL123_abc'' None [] [PlaylistsList ''PL123_abc'']
       = Some (Inr [], empty_calls)"
proof -
  have h1: "filter has_video_id
      (concat (map page_items (membership_pages empty_youtube empty_calls))) = []"
    by code_simp
  have h2: "truthy (Some ''key'')" by code_simp
  have h3: "extractPlaylistId example_URL_new ''https://x/playlist?list=PL123_abc'' = Some ''PL123_abc''"
    by code_simp
  have h4: "fetch_details empty_youtube ''PL123_abc'' = Inr no_details" by code_simp
  have h5: "fetch_pages empty_youtube ''PL123_abc'' None [] [PlaylistsList ''PL123_abc'']
       = Some (Inr [], empty_calls)"
    by code_simp
  note t = empty_playlist [of "Some ''key''" empty_youtube example_URL_new no_fallback
      example_request empty_summary empty_calls "''https://x/playlist?list=PL123_abc''"
      "''PL123_abc''" no_details empty_calls]
  from t empty_run h1 h2 h3 h4 h5 show ?thesis
    by (simp add: example_request_def)
qed

subsection \<open>Failures\<close>

lemma first_reason_body:
  "first_reason e = Some r \<Longrightarrow>
     \<exists>resp ytError e0 es. response e = Some resp \<and> data_error resp = Some ytError
        \<and> errors ytError = Some (e0 # es) \<and> reason e0 = Some r"
  by (auto simp: first_reason_def split: option.splits list.splits)

lemma handle_error_reason:
  assumes "first_reason e = Some r"
  shows "handle_error e =
    (if r = ''playlistNotFound'' then Json_error msg_not_found 404
     else if r = ''forbidden'' then Json_error msg_forbidden 403
     else if r = ''keyInvalid'' then Json_error msg_key_invalid 400
     else if r = ''quotaExceeded'' \<or> r = ''rateLimitExceeded'' \<or> r = ''userRateLimitExceeded''
       then Json_error msg_quota 429
     else Json_error (''YouTube API Error ('' @ r @ ''): ''
            @ template (item_message (hd (the (errors (snd (the (upstream_body e))))))))
          (upstream_status (fst (the (upstream_body e)))))"
proof -
  from first_reason_body [OF assms] obtain resp ytError e0 es where
    "response e = Some resp" "data_error resp = Some ytError"
    "errors ytError = Some (e0 # es)" "reason e0 = Some r"
    by blast
  then show ?thesis
    by (simp add: handle_error_def upstream_body_def template_def Let_def)
qed
lemma aggregate_only_videos:
  "videos_list yt' = videos_list yt \<Longrightarrow> aggregate yt' parse d ids calls = aggregate yt parse d ids calls"
  by (cases "ids = []") (simp_all add: aggregate_def Let_def)

text \<open>
  C6: when the metadata lookup fails with the reason \<open>playlistNotFound\<close>, the run answers
  404 at once and the lookup is its only call to the service; when it fails for any
  other reason, the run goes on as if the lookup had returned no details.
\<close>

theorem metadata_failure_policy:
  assumes "truthy key" "req = Inr (JString url)" "url \<noteq> []" "extractPlaylistId U url = Some p"
    and "playlists_list yt p = Inl e"
  shows "(first_reason e = Some ''playlistNotFound'' \<longrightarrow>
           POST key yt U parse req = Some (Json_error msg_not_found 404, [PlaylistsList p]))
       \<and> (first_reason e \<noteq> Some ''playlistNotFound'' \<longrightarrow>
           POST key yt U parse req
             = POST key (yt\<lparr>playlists_list := \<lambda>p. Inr \<lparr>pl_items = None\<rparr>\<rparr>) U parse req)"
proof (intro conjI impI)
  have pne: "p \<noteq> []" using assms(4) by (rule extract_nonempty)
  {
    assume "first_reason e = Some ''playlistNotFound''"
    then have "fetch_details yt p = Inl (Json_error msg_not_found 404)"
      using assms(5) by (simp add: fetch_details_def)
    then show "POST key yt U parse req = Some (Json_error msg_not_found 404, [PlaylistsList p])"
      using assms pne by (simp add: POST_def try_body_def truthy_def Let_def)
  next
    assume "first_reason e \<noteq> Some ''playlistNotFound''"
    then have d: "fetch_details yt p = Inr no_details"
      using assms(5) by (simp add: fetch_details_def)
    let ?yt = "yt\<lparr>playlists_list := \<lambda>p. Inr \<lparr>pl_items = None\<rparr>\<rparr>"
    have d': "fetch_details ?yt p = Inr no_details"
      by (simp add: fetch_details_def)
    have f: "fetch_pages ?yt p None [] [PlaylistsList p] = fetch_pages yt p None [] [PlaylistsList p]"
      by (rule fetch_pages_only_items) simp
    have a: "aggregate ?yt parse no_details ids calls = aggregate yt parse no_details ids calls"
      for ids calls
      by (rule aggregate_only_videos) simp
    have "try_body ?yt U parse req = try_body yt U parse req"
      using assms pne
      by (simp add: try_body_def truthy_def Let_def d d' f a
          split: option.split prod.split sum.split)
    then show "POST key yt U parse req = POST key ?yt U parse req"
      by (simp add: POST_def)
  }
qed

theorem metadata_failure_policy_witness:
  "truthy (Some ''key'')
   \<and> extractPlaylistId example_URL_new ''https://x/playlist?list=PL123_abc'' = Some ''PL123_abc''
   \<and> playlists_list missing_youtube ''PL123_abc''
        = Inl (upstream_failure 404 ''playlistNotFound'' ''Not found'')
   \<and> first_reason (upstream_failure 404 ''playlistNotFound'' ''Not found'') = Some ''playlistNotFound''
   \<and> POST (Some ''key'') missing_youtube example_URL_new no_fallback example_request
        = Some (Json_error msg_not_found 404, [PlaylistsList ''PL123_abc''])
   \<and> playlists_list example_youtube ''PL123_abc''
        = Inl (upstream_failure 500 ''backendError'' ''Backend Error'')
   \<and> first_reason (upstream_failure 500 ''backendError'' ''Backend Error'') \<noteq> Some ''playlistNotFound''
   \<and> POST (Some ''key'') example_youtube example_URL_new no_fallback example_request
        = POST (Some ''key'') (example_youtube\<lparr>playlists_list := \<lambda>p. Inr \<lparr>pl_items = None\<rparr>\<rparr>)
            example_URL_new no_fallback example_request
   \<and> POST (Some ''key'') example_youtube example_URL_new no_fallback example_request
        = Some (Json_ok example_summary, example_calls)"
proof -
  have k: "truthy (Some ''key'')" by code_simp
  have r: "example_request = Inr (JString ''https://x/playlist?list=PL123_abc'')"
    by (simp add: example_request_def)
  have u: "''https://x/playlist?list=PL123_abc'' \<noteq> []" by simp
  have x: "extractPlaylistId example_URL_new ''https://x/playlist?list=PL123_abc'' = Some ''PL123_abc''"
    by code_simp
  have m: "playlists_list missing_youtube ''PL123_abc''
        = Inl (upstream_failure 404 ''playlistNotFound'' ''Not found'')"
    by (simp add: missing_youtube_def)
  have m': "first_reason (upstream_failure 404 ''playlistNotFound'' ''Not found'') = Some ''playlistNotFound''"
    by (simp add: first_reason_def upstream_failure_def)
  have e: "playlists_list example_youtube ''PL123_abc''
        = Inl (upstream_failure 500 ''backendError'' ''Backend Error'')"
    by (simp add: example_youtube_def)
  have e': "first_reason (upstream_failure 500 ''backendError'' ''Backend Error'') \<noteq> Some ''playlistNotFound''"
    by (simp add: first_reason_def upstream_failure_def)
  from metadata_failure_policy [OF k r u x m, of no_fallback] m'
       metadata_failure_policy [OF k r u x e, of no_fallback] e'
       k x m e example_run
  show ?thesis by simp
qed

text \<open>
  C7, as amended: the response to a fatal failure is fixed by the first reason code of
  the upstream error body: \<open>playlistNotFound\<close> gives 404, \<open>forbidden\<close> 403, \<open>keyInvalid\<close> 400,
  the quota and rate-limit reasons 429. A thrown value without an upstream error body
  gives the generic 500. Any other failure with an upstream error body is answered with
  the status of the upstream response, and with 500 only when that has none. A missing
  access token gives 500 before any call, a missing or malformed URL gives 400 before
  any call, and every value thrown in the handler goes through this mapping.
\<close>

theorem error_classification:
  "(first_reason e = Some ''playlistNotFound'' \<longrightarrow> handle_error e = Json_error msg_not_found 404)
   \<and> (first_reason e = Some ''forbidden'' \<longrightarrow> handle_error e = Json_error msg_forbidden 403)
   \<and> (first_reason e = Some ''keyInvalid'' \<longrightarrow> handle_error e = Json_error msg_key_invalid 400)
   \<and> (first_reason e \<in> {Some ''quotaExceeded'', Some ''rateLimitExceeded'',
                           Some ''userRateLimitExceeded''}
        \<longrightarrow> handle_error e = Json_error msg_quota 429)
   \<and> (upstream_body e = None \<longrightarrow> handle_error e = Json_error msg_unexpected 500)
   \<and> (upstream_body e = Some (resp, ytError) \<and> first_reason e \<notin> handled_reasons
        \<longrightarrow> response_status (handle_error e) = (case status resp of Some st \<Rightarrow> st | None \<Rightarrow> 500))
   \<and> (\<not> truthy key \<longrightarrow> POST key yt U parse req = Some (Json_error msg_key_missing 500, []))
   \<and> (truthy key \<and> req = Inr v \<and> (\<forall>url. v = JString url \<longrightarrow> url = [])
        \<longrightarrow> POST key yt U parse req = Some (Json_error msg_url_required 400, []))
   \<and> (truthy key \<and> req = Inr (JString url) \<and> url \<noteq> [] \<and> extractPlaylistId U url = None
        \<longrightarrow> POST key yt U parse req = Some (Json_error msg_url_format 400, []))
   \<and> (truthy key \<and> try_body yt U parse req = Some (Inl e, calls)
        \<longrightarrow> POST key yt U parse req = Some (handle_error e, calls))"
proof (intro conjI impI)
  show "handle_error e = Json_error msg_not_found 404" if "first_reason e = Some ''playlistNotFound''"
    using handle_error_reason [OF that] by simp
  show "handle_error e = Json_error msg_forbidden 403" if "first_reason e = Some ''forbidden''"
    using handle_error_reason [OF that] by simp
  show "handle_error e = Json_error msg_key_invalid 400" if "first_reason e = Some ''keyInvalid''"
    using handle_error_reason [OF that] by simp
  show "handle_error e = Json_error msg_quota 429"
    if "first_reason e \<in> {Some ''quotaExceeded'', Some ''rateLimitExceeded'',
                           Some ''userRateLimitExceeded''}"
    using that handle_error_reason [of e] by auto
  show "handle_error e = Json_error msg_unexpected 500" if "upstream_body e = None"
    using that by (auto simp: handle_error_def upstream_body_def split: option.splits)
  show "response_status (handle_error e) = (case status resp of Some st \<Rightarrow> st | None \<Rightarrow> 500)"
    if "upstream_body e = Some (resp, ytError) \<and> first_reason e \<notin> handled_reasons"
    using that
    by (auto simp: handle_error_def upstream_body_def first_reason_def handled_reasons_def
        upstream_status_def Let_def split: option.splits list.splits)
  show "POST key yt U parse req = Some (Json_error msg_key_missing 500, [])" if "\<not> truthy key"
    using that by (simp add: POST_def)
  show "POST key yt U parse req = Some (Json_error msg_url_required 400, [])"
    if "truthy key \<and> req = Inr v \<and> (\<forall>url. v = JString url \<longrightarrow> url = [])"
    using that by (cases v) (auto simp: POST_def try_body_def)
  show "POST key yt U parse req = Some (Json_error msg_url_format 400, [])"
    if "truthy key \<and> req = Inr (JString url) \<and> url \<noteq> [] \<and> extractPlaylistId U url = None"
    using that by (simp add: POST_def try_body_def truthy_def)
  show "POST key yt U parse req = Some (handle_error e, calls)"
    if "truthy key \<and> try_body yt U parse req = Some (Inl e, calls)"
    using that by (simp add: POST_def)
qed

theorem error_classification_witness:
  "handle_error (upstream_failure 404 ''playlistNotFound'' ''Not found'') = Json_error msg_not_found 404
   \<and> handle_error (upstream_failure 403 ''forbidden'' ''Forbidden'') = Json_error msg_forbidden 403
   \<and> handle_error (upstream_failure 400 ''keyInvalid'' ''Bad Request'') = Json_error msg_key_invalid 400
   \<and> handle_error (upstream_failure 403 ''quotaExceeded'' ''Quota exceeded'') = Json_error msg_quota 429
   \<and> handle_error \<lparr>response = None\<rparr> = Json_error msg_unexpected 500
   \<and> response_status (handle_error (upstream_failure 503 ''backendError'' ''Backend Error'')) = 503
   \<and> POST None example_youtube example_URL_new no_fallback example_request
        = Some (Json_error msg_key_missing 500, [])
   \<and> POST (Some ''key'') example_youtube example_URL_new no_fallback (Inr JNull)
        = Some (Json_error msg_url_required 400, [])
   \<and> POST (Some ''key'') example_youtube example_URL_new no_fallback (Inr (JString ''not a url''))
        = Some (Json_error msg_url_format 400, [])
   \<and> POST (Some ''key'') quota_youtube example_URL_new no_fallback example_request
        = Some (Json_error msg_quota 429,
            [PlaylistsList ''PL123_abc'', PlaylistItemsList ''PL123_abc'' None])"
proof -
  let ?nf = "upstream_failure 404 ''playlistNotFound'' ''Not found''"
  let ?fb = "upstream_failure 403 ''forbidden'' ''Forbidden''"
  let ?ki = "upstream_failure 400 ''keyInvalid'' ''Bad Request''"
  let ?qe = "upstream_failure 403 ''quotaExceeded'' ''Quota exceeded''"
  let ?be = "upstream_failure 503 ''backendError'' ''Backend Error''"
  have r: "first_reason (upstream_failure st c msg) = Some c" for st c msg
    by (simp add: first_reason_def upstream_failure_def)
  have c1: "handle_error ?nf = Json_error msg_not_found 404"
    using error_classification [where e = "?nf"] by (simp add: r)
  have c2: "handle_error ?fb = Json_error msg_forbidden 403"
    using error_classification [where e = "?fb"] by (simp add: r)
  have c3: "handle_error ?ki = Json_error msg_key_invalid 400"
    using error_classification [where e = "?ki"] by (simp add: r)
  have c4: "handle_error ?qe = Json_error msg_quota 429"
    using error_classification [where e = "?qe"] by (simp add: r)
  have c5: "handle_error \<lparr>response = None\<rparr> = Json_error msg_unexpected 500"
    using error_classification [where e = "\<lparr>response = None\<rparr>"]
    by (simp add: upstream_body_def)
  have b: "upstream_body ?be =
      Some (\<lparr>status = Some 503, data_error = Some \<lparr>message = Some ''Backend Error'',
              errors = Some [\<lparr>reason = Some ''backendError'', item_message = Some ''Backend Error''\<rparr>]\<rparr>\<rparr>,
            \<lparr>message = Some ''Backend Error'',
              errors = Some [\<lparr>reason = Some ''backendError'', item_message = Some ''Backend Error''\<rparr>]\<rparr>)"
    by (simp add: upstream_body_def upstream_failure_def)
  have c6: "response_status (handle_error ?be) = 503"
    using error_classification [where e = "?be", THEN conjunct2, THEN conjunct2, THEN conjunct2,
        THEN conjunct2, THEN conjunct2, THEN conjunct1] b
    by (simp add: r handled_reasons_def)
  have c7: "POST None example_youtube example_URL_new no_fallback example_request
        = Some (Json_error msg_key_missing 500, [])"
    using error_classification [where key = None and yt = example_youtube and U = example_URL_new
        and parse = no_fallback and req = example_request]
    by (simp add: truthy_def)
  have k: "truthy (Some ''key'')" by code_simp
  have c8: "POST (Some ''key'') example_youtube example_URL_new no_fallback (Inr JNull)
        = Some (Json_error msg_url_required 400, [])"
    using error_classification [where key = "Some ''key''" and yt = example_youtube
        and U = example_URL_new and parse = no_fallback and req = "Inr JNull" and v = JNull] k
    by simp
  have x: "extractPlaylistId example_URL_new ''not a url'' = None" by code_simp
  have c9: "POST (Some ''key'') example_youtube example_URL_new no_fallback (Inr (JString ''not a url''))
        = Some (Json_error msg_url_format 400, [])"
    using error_classification [where key = "Some ''key''" and yt = example_youtube
        and U = example_URL_new and parse = no_fallback and req = "Inr (JString ''not a url'')"
        and url = "''not a url''"] k x
    by simp
  have tb: "try_body quota_youtube example_URL_new no_fallback example_request
      = Some (Inl ?qe, [PlaylistsList ''PL123_abc'', PlaylistItemsList ''PL123_abc'' None])"
    by code_simp
  have c10: "POST (Some ''key'') quota_youtube example_URL_new no_fallback example_request
        = Some (Json_error msg_quota 429,
            [PlaylistsList ''PL123_abc'', PlaylistItemsList ''PL123_abc'' None])"
    using error_classification [where key = "Some ''key''" and yt = quota_youtube
        and U = example_URL_new and parse = no_fallback and req = example_request
        and e = "?qe" and calls = "[PlaylistsList ''PL123_abc'', PlaylistItemsList ''PL123_abc'' None]"]
      k tb
    by (simp add: r)
  from c1 c2 c3 c4 c5 c6 c7 c8 c9 c10 show ?thesis by blast
qed

text \<open>
  The claim as it was stated fails for the other failures: a lookup refused with the
  reason \<open>accessNotConfigured\<close> and the status 403 is answered with 403 and the upstream
  message, not with the generic server error.
\<close>

theorem other_failure_counterexample:
  "first_reason (upstream_failure 403 ''accessNotConfigured'' ''API not enabled'') \<notin> handled_reasons
   \<and> handle_error (upstream_failure 403 ''accessNotConfigured'' ''API not enabled'')
       = Json_error ''YouTube API Error (accessNotConfigured): API not enabled'' 403
   \<and> response_status (handle_error (upstream_failure 403 ''accessNotConfigured'' ''API not enabled'')) \<noteq> 500"
  by (simp add: upstream_failure_def first_reason_def handled_reasons_def handle_error_def
      template_def upstream_status_def Let_def)

end
